theory Spec2Isabelle
  imports Main
begin

section \<open>Strings\<close>

text \<open>
  JavaScript strings are modelled as \<^typ>\<open>string\<close>. The program's own literals are ASCII but
  for the check mark of the tables, which is written as its three UTF-8 bytes. Identifiers,
  paths and comment texts are taken to be ASCII: \<open>toLowerCase\<close> maps \<open>A\<close>..\<open>Z\<close> to
  \<open>a\<close>..\<open>z\<close> and leaves every other character alone, and white space (what \<open>trim\<close> and
  the regular expression class \<open>\s\<close> match) is tab, line feed, vertical tab, form feed,
  carriage return and space.
\<close>

definition newline :: string where
  "newline = [CHR 0x0A]"

definition checkMark :: string where
  "checkMark = [CHR 0xE2, CHR 0x9C, CHR 0x93]"

definition isWhitespace :: "char \<Rightarrow> bool" where
  "isWhitespace c = (c \<in> set [CHR 0x09, CHR 0x0A, CHR 0x0B, CHR 0x0C, CHR 0x0D, CHR '' ''])"

text \<open>\<open>s.trim()\<close>\<close>

definition trim :: "string \<Rightarrow> string" where
  "trim s = rev (dropWhile isWhitespace (rev (dropWhile isWhitespace s)))"

text \<open>\<open>xs.join(sep)\<close>\<close>

fun joinWith :: "string \<Rightarrow> string list \<Rightarrow> string" where
  "joinWith sep [] = []"
| "joinWith sep [x] = x"
| "joinWith sep (x # y # ys) = x @ sep @ joinWith sep (y # ys)"

text \<open>\<open>s.includes(".")\<close>\<close>

definition includesDot :: "string \<Rightarrow> bool" where
  "includesDot s = (CHR ''.'' \<in> set s)"

text \<open>\<open>s.toLowerCase()\<close>\<close>

definition toLowerCaseChar :: "char \<Rightarrow> char" where
  "toLowerCaseChar c =
     (case map_of (zip ''ABCDEFGHIJKLMNOPQRSTUVWXYZ'' ''abcdefghijklmnopqrstuvwxyz'') c of
        Some l \<Rightarrow> l
      | None \<Rightarrow> c)"

definition toLowerCase :: "string \<Rightarrow> string" where
  "toLowerCase s = map toLowerCaseChar s"

text \<open>The character class \<open>[a-z0-9]\<close>.\<close>

definition isLowerAlnum :: "char \<Rightarrow> bool" where
  "isLowerAlnum c = (c \<in> set ''abcdefghijklmnopqrstuvwxyz0123456789'')"

text \<open>
  \<open>s.replace(/[^a-z0-9]+/g, "-")\<close>: the scan goes from left to right; at a character outside
  the class the match is greedy, so it takes the whole run, and the run is replaced by one hyphen.
\<close>

function replaceNonAlnumRuns :: "string \<Rightarrow> string" where
  "replaceNonAlnumRuns [] = []"
| "replaceNonAlnumRuns (c # cs) =
     (if isLowerAlnum c then c # replaceNonAlnumRuns cs
      else CHR ''-'' # replaceNonAlnumRuns (dropWhile (\<lambda>d. \<not> isLowerAlnum d) cs))"
  by pat_completeness auto
termination
  by (relation "measure length") (auto intro: le_imp_less_Suc length_dropWhile_le)

text \<open>\<open>s.replace(/^-\s*/, "")\<close>: a leading dash and all white space after it are removed.\<close>

fun removeLeadingDash :: "string \<Rightarrow> string" where
  "removeLeadingDash [] = []"
| "removeLeadingDash (c # cs) = (if c = CHR ''-'' then dropWhile isWhitespace cs else c # cs)"

text \<open>
  \<open>path.basename(p)\<close> of Node's \<open>path\<close> module, in its POSIX form: trailing slashes are
  ignored and the part after the last remaining slash is returned.
\<close>

definition basename :: "string \<Rightarrow> string" where
  "basename p = rev (takeWhile (\<lambda>c. c \<noteq> CHR ''/'') (dropWhile (\<lambda>c. c = CHR ''/'') (rev p)))"


section \<open>The type model (types.ts)\<close>

text \<open>
  The \<open>kind\<close> tag of the three item records is a constant of each record type and is left
  out. Fields carry a prefix, since \<open>name\<close>, \<open>type\<close> and \<open>description\<close> occur in several
  records. An optional field is an \<^typ>\<open>'a option\<close>, \<^term>\<open>None\<close> for \<open>undefined\<close>.
\<close>

record ParsedProperty =
  prop_name :: string
  prop_type :: string
  prop_required :: bool
  prop_description :: "string option"

record ParsedInterface =
  iface_name :: string
  iface_description :: "string option"
  iface_properties :: "ParsedProperty list"
  iface_extends :: "string list option"

record ParsedTypeAlias =
  alias_name :: string
  alias_type :: string
  alias_description :: "string option"

record ParsedParameter =
  param_name :: string
  param_type :: string
  param_required :: bool
  param_description :: "string option"

record ParsedFunction =
  fn_name :: string
  fn_description :: "string option"
  fn_parameters :: "ParsedParameter list"
  fn_returnType :: string
  fn_isAsync :: bool

record ParsedFile =
  filePath :: string
  interfaces :: "ParsedInterface list"
  typeAliases :: "ParsedTypeAlias list"
  pf_functions :: "ParsedFunction list"


section \<open>The markdown generator (generator.ts)\<close>

record GeneratorOptions =
  title :: "string option"

record 'a ItemWithSource =
  item :: 'a
  sourceFile :: string

subsection \<open>Duplicate names, display names and anchors\<close>

text \<open>The loop of \<open>findDuplicateNames\<close>, with the two sets \<open>seen\<close> and \<open>duplicates\<close> as state.\<close>

fun findDuplicateNames_loop :: "string list \<Rightarrow> string set \<Rightarrow> string set \<Rightarrow> string set" where
  "findDuplicateNames_loop [] seen duplicates = duplicates"
| "findDuplicateNames_loop (n # ns) seen duplicates =
     findDuplicateNames_loop ns (insert n seen)
       (if n \<in> seen then insert n duplicates else duplicates)"

definition findDuplicateNames :: "string list \<Rightarrow> string set" where
  "findDuplicateNames names = findDuplicateNames_loop names {} {}"

definition getDisplayName :: "string \<Rightarrow> string \<Rightarrow> string set \<Rightarrow> string" where
  "getDisplayName name src duplicates =
     (if name \<in> duplicates then name @ '' ('' @ src @ '')'' else name)"

definition toAnchor :: "string \<Rightarrow> string" where
  "toAnchor name = replaceNonAlnumRuns (toLowerCase name)"

definition getAnchor :: "string \<Rightarrow> string \<Rightarrow> string set \<Rightarrow> string" where
  "getAnchor name src duplicates =
     (if name \<in> duplicates then toAnchor (name @ ''-'' @ src) else toAnchor name)"

subsection \<open>Tables and sections\<close>

text \<open>\<open>text.replace(/\|/g, "\\|")\<close>: a backslash before every pipe.\<close>

definition escapeMarkdown :: "string \<Rightarrow> string" where
  "escapeMarkdown s = concat (map (\<lambda>c. if c = CHR ''|'' then [CHR 0x5C, CHR ''|''] else [c]) s)"

text \<open>\<open>d || ""\<close> for an optional string.\<close>

definition orEmpty :: "string option \<Rightarrow> string" where
  "orEmpty d = (case d of None \<Rightarrow> [] | Some s \<Rightarrow> s)"

text \<open>\<open>if (d) { lines.push(d); lines.push("") }\<close>: an empty string is falsy, as \<open>undefined\<close> is.\<close>

definition descriptionLines :: "string option \<Rightarrow> string list" where
  "descriptionLines d = (case d of None \<Rightarrow> [] | Some s \<Rightarrow> if s = [] then [] else [s, []])"

definition tableRow :: "string \<Rightarrow> string \<Rightarrow> bool \<Rightarrow> string option \<Rightarrow> string" where
  "tableRow n t required d =
     ''| '' @ n @ '' | `'' @ escapeMarkdown t @ ''` | '' @
     (if required then checkMark else []) @ '' | '' @ orEmpty d @ '' |''"

definition generatePropertiesTable :: "ParsedProperty list \<Rightarrow> string list" where
  "generatePropertiesTable properties =
     [''| Property | Type | Required | Description |'',
      ''|----------|------|----------|-------------|''] @
     map (\<lambda>prop. tableRow (prop_name prop) (prop_type prop) (prop_required prop)
            (prop_description prop)) properties"

definition generateParametersTable :: "ParsedParameter list \<Rightarrow> string list" where
  "generateParametersTable parameters =
     [''| Name | Type | Required | Description |'',
      ''|------|------|----------|-------------|''] @
     map (\<lambda>param. tableRow (param_name param) (param_type param) (param_required param)
            (param_description param)) parameters"

definition generateInterface :: "ParsedInterface \<Rightarrow> string \<Rightarrow> string set \<Rightarrow> string list" where
  "generateInterface iface src duplicates =
     (let displayName = getDisplayName (iface_name iface) src duplicates in
      [''## '' @ displayName, []] @
      (case iface_extends iface of
         None \<Rightarrow> []
       | Some es \<Rightarrow>
           if length es > 0 then [''*Extends: '' @ joinWith '', '' es @ ''*'', []] else []) @
      descriptionLines (iface_description iface) @
      (if length (iface_properties iface) > 0
       then generatePropertiesTable (iface_properties iface)
       else [''*No properties*'']) @
      [[], ''---''])"

definition generateTypeAlias :: "ParsedTypeAlias \<Rightarrow> string \<Rightarrow> string set \<Rightarrow> string list" where
  "generateTypeAlias alias src duplicates =
     (let displayName = getDisplayName (alias_name alias) src duplicates in
      [''## '' @ displayName, []] @
      descriptionLines (alias_description alias) @
      [''```typescript'',
       ''type '' @ alias_name alias @ '' = '' @ alias_type alias,
       ''```''] @
      [[], ''---''])"

definition generateFunction :: "ParsedFunction \<Rightarrow> string \<Rightarrow> string set \<Rightarrow> string list" where
  "generateFunction fn src duplicates =
     (let displayName = getDisplayName (fn_name fn) src duplicates;
          asyncPrefix = (if fn_isAsync fn then ''async '' else []);
          params = map (\<lambda>p. param_name p @ (if param_required p then [] else ''?'') @
                              '': '' @ param_type p) (fn_parameters fn);
          signature = asyncPrefix @ ''function '' @ fn_name fn @ ''('' @
                      joinWith '', '' params @ ''): '' @ fn_returnType fn
      in
      [''## '' @ displayName @ ''()'', []] @
      descriptionLines (fn_description fn) @
      [''```typescript'', signature, ''```'', []] @
      (if length (fn_parameters fn) > 0
       then [''**Parameters:**'', []] @ generateParametersTable (fn_parameters fn) @ [[]]
       else []) @
      [''**Returns:** `'' @ escapeMarkdown (fn_returnType fn) @ ''`''] @
      [[], ''---''])"

subsection \<open>The document\<close>

definition allInterfaces :: "ParsedFile list \<Rightarrow> ParsedInterface ItemWithSource list" where
  "allInterfaces files =
     concat (map (\<lambda>file. map (\<lambda>iface. \<lparr>item = iface, sourceFile = basename (filePath file)\<rparr>)
                            (interfaces file)) files)"

definition allTypeAliases :: "ParsedFile list \<Rightarrow> ParsedTypeAlias ItemWithSource list" where
  "allTypeAliases files =
     concat (map (\<lambda>file. map (\<lambda>alias. \<lparr>item = alias, sourceFile = basename (filePath file)\<rparr>)
                            (typeAliases file)) files)"

definition allFunctions :: "ParsedFile list \<Rightarrow> ParsedFunction ItemWithSource list" where
  "allFunctions files =
     concat (map (\<lambda>file. map (\<lambda>fn. \<lparr>item = fn, sourceFile = basename (filePath file)\<rparr>)
                            (pf_functions file)) files)"

text \<open>The pooled list of names handed to \<open>findDuplicateNames\<close>.\<close>

definition pooledNames :: "ParsedFile list \<Rightarrow> string list" where
  "pooledNames files =
     map (\<lambda>i. iface_name (item i)) (allInterfaces files) @
     map (\<lambda>t. alias_name (item t)) (allTypeAliases files) @
     map (\<lambda>f. fn_name (item f)) (allFunctions files)"

definition duplicateNames :: "ParsedFile list \<Rightarrow> string set" where
  "duplicateNames files = findDuplicateNames (pooledNames files)"

text \<open>A line of the table of contents; \<open>suffix\<close> is \<open>()\<close> for a function and empty otherwise.\<close>

definition tocEntry :: "string \<Rightarrow> string \<Rightarrow> string set \<Rightarrow> string \<Rightarrow> string" where
  "tocEntry name src duplicates suffix =
     ''- ['' @ getDisplayName name src duplicates @ suffix @ ''](#'' @
     getAnchor name src duplicates @ '')''"

definition tableOfContents :: "ParsedFile list \<Rightarrow> string list" where
  "tableOfContents files =
     (let is = allInterfaces files; ts = allTypeAliases files; fs = allFunctions files;
          dups = duplicateNames files
      in
      if length is + length ts + length fs > 0 then
        [''## Table of Contents'', []] @
        (if length is > 0
         then [''### Interfaces'', []] @
              map (\<lambda>x. tocEntry (iface_name (item x)) (sourceFile x) dups []) is @ [[]]
         else []) @
        (if length ts > 0
         then [''### Types'', []] @
              map (\<lambda>x. tocEntry (alias_name (item x)) (sourceFile x) dups []) ts @ [[]]
         else []) @
        (if length fs > 0
         then [''### Functions'', []] @
              map (\<lambda>x. tocEntry (fn_name (item x)) (sourceFile x) dups ''()'') fs @ [[]]
         else []) @
        [''---'', []]
      else [])"

definition generateMarkdownLines :: "ParsedFile list \<Rightarrow> GeneratorOptions \<Rightarrow> string list" where
  "generateMarkdownLines files options =
     (let t = (case title options of None \<Rightarrow> ''API Reference'' | Some t \<Rightarrow> t);
          dups = duplicateNames files
      in
      [''# '' @ t, []] @
      tableOfContents files @
      concat (map (\<lambda>x. generateInterface (item x) (sourceFile x) dups @ [[]])
                (allInterfaces files)) @
      concat (map (\<lambda>x. generateTypeAlias (item x) (sourceFile x) dups @ [[]])
                (allTypeAliases files)) @
      concat (map (\<lambda>x. generateFunction (item x) (sourceFile x) dups @ [[]])
                (allFunctions files)))"

definition generateMarkdown :: "ParsedFile list \<Rightarrow> GeneratorOptions \<Rightarrow> string" where
  "generateMarkdown files options = joinWith newline (generateMarkdownLines files options)"


section \<open>The syntax tree read by the parser\<close>

text \<open>
  The parser (parser.ts) reads the source file through ts-morph. What it reads of each node is
  a field of the node's record here: a type or a clause rendered by \<open>getText\<close> is a string,
  \<open>getJsDocs()\<close> is the list of the node's documentation blocks in source order, and a
  source file is the list of its top-level statements in source order, which is the order in
  which \<open>getInterfaces\<close>, \<open>getTypeAliases\<close>, \<open>getFunctions\<close> and
  \<open>getVariableStatements\<close> enumerate.
\<close>

text \<open>
  A tag of a documentation block: a parameter tag (\<open>Node.isJSDocParameterTag\<close>) with its
  tag name, \<open>getName()\<close> and \<open>getCommentText()\<close>, or any other tag.
\<close>

datatype JSDocTag =
    JSDocParameterTag string string "string option"
  | JSDocOtherTag string "string option"

record JSDoc =
  doc_description :: "string option"
  doc_tags :: "JSDocTag list"

record ParameterDeclaration =
  pd_name :: string
  pd_typeText :: string
  pd_isOptional :: bool
  pd_hasInitializer :: bool

record PropertySignature =
  ps_name :: string
  ps_typeText :: string
  ps_hasQuestionToken :: bool
  ps_jsDocs :: "JSDoc list"

record MethodSignature =
  ms_name :: string
  ms_parameters :: "ParameterDeclaration list"
  ms_returnTypeText :: string
  ms_hasQuestionToken :: bool
  ms_jsDocs :: "JSDoc list"

record InterfaceDeclaration =
  id_name :: string
  id_isExported :: bool
  id_jsDocs :: "JSDoc list"
  id_properties :: "PropertySignature list"
  id_methods :: "MethodSignature list"
  id_extends :: "string list"

record TypeAliasDeclaration =
  ta_name :: string
  ta_isExported :: bool
  ta_typeText :: string
  ta_jsDocs :: "JSDoc list"

record FunctionDeclaration =
  fd_name :: "string option"
  fd_isExported :: bool
  fd_jsDocs :: "JSDoc list"
  fd_parameters :: "ParameterDeclaration list"
  fd_returnTypeText :: string
  fd_isAsync :: bool

record ArrowFunction =
  af_parameters :: "ParameterDeclaration list"
  af_returnTypeText :: string
  af_isAsync :: bool

text \<open>A function expression \<open>function (...) {...}\<close>, with its name when it has one.\<close>

record FunctionExpression =
  fe_name :: "string option"
  fe_parameters :: "ParameterDeclaration list"
  fe_returnTypeText :: string
  fe_isAsync :: bool

text \<open>The initializer of a variable declaration, by the kind of its node.\<close>

datatype Initializer =
    ArrowFunctionInit ArrowFunction
  | FunctionExpressionInit FunctionExpression
  | OtherInit string

record VariableDeclaration =
  vd_name :: string
  vd_initializer :: "Initializer option"

record VariableStatement =
  vs_isExported :: bool
  vs_jsDocs :: "JSDoc list"
  vs_declarations :: "VariableDeclaration list"

datatype Statement =
    InterfaceStatement InterfaceDeclaration
  | TypeAliasStatement TypeAliasDeclaration
  | FunctionStatement FunctionDeclaration
  | VariableStatementNode VariableStatement
  | OtherStatement

type_synonym SourceFile = "Statement list"

fun getInterfaces :: "SourceFile \<Rightarrow> InterfaceDeclaration list" where
  "getInterfaces [] = []"
| "getInterfaces (InterfaceStatement d # ss) = d # getInterfaces ss"
| "getInterfaces (s # ss) = getInterfaces ss"

fun getTypeAliases :: "SourceFile \<Rightarrow> TypeAliasDeclaration list" where
  "getTypeAliases [] = []"
| "getTypeAliases (TypeAliasStatement d # ss) = d # getTypeAliases ss"
| "getTypeAliases (s # ss) = getTypeAliases ss"

fun getFunctions :: "SourceFile \<Rightarrow> FunctionDeclaration list" where
  "getFunctions [] = []"
| "getFunctions (FunctionStatement d # ss) = d # getFunctions ss"
| "getFunctions (s # ss) = getFunctions ss"

fun getVariableStatements :: "SourceFile \<Rightarrow> VariableStatement list" where
  "getVariableStatements [] = []"
| "getVariableStatements (VariableStatementNode d # ss) = d # getVariableStatements ss"
| "getVariableStatements (s # ss) = getVariableStatements ss"

text \<open>
  \<open>getVariableDeclarations()\<close>: the declarations of the variable statements, statement by
  statement; each is paired with its statement, which is what \<open>getVariableStatement()\<close>
  returns for it.
\<close>

definition getVariableDeclarations :: "SourceFile \<Rightarrow> (VariableDeclaration \<times> VariableStatement) list" where
  "getVariableDeclarations sf =
     concat (map (\<lambda>vs. map (\<lambda>d. (d, vs)) (vs_declarations vs)) (getVariableStatements sf))"


section \<open>The parser (parser.ts)\<close>

subsection \<open>Documentation comments\<close>

definition getJsDocDescriptionFromDocs :: "JSDoc list option \<Rightarrow> string option" where
  "getJsDocDescriptionFromDocs jsDocs =
     (case jsDocs of
        None \<Rightarrow> None
      | Some ds \<Rightarrow>
          if length ds = 0 then None
          else
            (let jsDoc = ds ! (length ds - 1) in
             case doc_description jsDoc of
               None \<Rightarrow> None
             | Some description \<Rightarrow>
                 if description = [] \<or> trim description = [] then None
                 else Some (trim description)))"

definition getJsDocDescription :: "JSDoc list \<Rightarrow> string option" where
  "getJsDocDescription nodeJsDocs = getJsDocDescriptionFromDocs (Some nodeJsDocs)"

text \<open>
  The body of the loop over the tags in \<open>extractParamDescriptions\<close>; \<open>descriptions\<close> is the
  \<open>Map\<close> being filled.
\<close>

fun extractParamDescriptions_tag :: "JSDocTag \<Rightarrow> (string \<rightharpoonup> string) \<Rightarrow> (string \<rightharpoonup> string)" where
  "extractParamDescriptions_tag (JSDocParameterTag tagName paramName commentText) descriptions =
     (if tagName = ''param'' then
        (case map_option trim commentText of
           None \<Rightarrow> descriptions
         | Some comment \<Rightarrow>
             if paramName \<noteq> [] \<and> \<not> includesDot paramName \<and> comment \<noteq> []
             then descriptions(paramName \<mapsto> removeLeadingDash comment)
             else descriptions)
      else descriptions)"
| "extractParamDescriptions_tag (JSDocOtherTag tagName commentText) descriptions = descriptions"

fun extractParamDescriptions_loop :: "JSDocTag list \<Rightarrow> (string \<rightharpoonup> string) \<Rightarrow> (string \<rightharpoonup> string)" where
  "extractParamDescriptions_loop [] descriptions = descriptions"
| "extractParamDescriptions_loop (tag # tags) descriptions =
     extractParamDescriptions_loop tags (extractParamDescriptions_tag tag descriptions)"

definition extractParamDescriptions :: "JSDoc list \<Rightarrow> (string \<rightharpoonup> string)" where
  "extractParamDescriptions jsDocs =
     (if length jsDocs = 0 then Map.empty
      else extractParamDescriptions_loop (doc_tags (jsDocs ! (length jsDocs - 1))) Map.empty)"

subsection \<open>Interfaces and type aliases\<close>

definition parseProperties :: "InterfaceDeclaration \<Rightarrow> ParsedProperty list" where
  "parseProperties iface =
     map (\<lambda>prop. \<lparr>prop_name = ps_name prop,
                   prop_type = ps_typeText prop,
                   prop_required = (\<not> ps_hasQuestionToken prop),
                   prop_description = getJsDocDescription (ps_jsDocs prop)\<rparr>)
         (id_properties iface) @
     map (\<lambda>method.
            let params = joinWith '', ''
                           (map (\<lambda>p. pd_name p @ '': '' @ pd_typeText p) (ms_parameters method));
                funcType = ''('' @ params @ '') => '' @ ms_returnTypeText method
            in \<lparr>prop_name = ms_name method,
                prop_type = funcType,
                prop_required = (\<not> ms_hasQuestionToken method),
                prop_description = getJsDocDescription (ms_jsDocs method)\<rparr>)
         (id_methods iface)"

definition getExtendsClause :: "InterfaceDeclaration \<Rightarrow> string list option" where
  "getExtendsClause iface =
     (if length (id_extends iface) = 0 then None else Some (id_extends iface))"

text \<open>The function that \<open>parseInterfaces\<close> maps over the exported interfaces.\<close>

definition parseInterface :: "InterfaceDeclaration \<Rightarrow> ParsedInterface" where
  "parseInterface iface =
     \<lparr>iface_name = id_name iface,
      iface_description = getJsDocDescription (id_jsDocs iface),
      iface_properties = parseProperties iface,
      iface_extends = getExtendsClause iface\<rparr>"

definition parseInterfaces :: "SourceFile \<Rightarrow> ParsedInterface list" where
  "parseInterfaces sf = map parseInterface (filter id_isExported (getInterfaces sf))"

text \<open>The function that \<open>parseTypeAliases\<close> maps over the exported type aliases.\<close>

definition parseTypeAlias :: "TypeAliasDeclaration \<Rightarrow> ParsedTypeAlias" where
  "parseTypeAlias alias =
     \<lparr>alias_name = ta_name alias,
      alias_type = ta_typeText alias,
      alias_description = getJsDocDescription (ta_jsDocs alias)\<rparr>"

definition parseTypeAliases :: "SourceFile \<Rightarrow> ParsedTypeAlias list" where
  "parseTypeAliases sf = map parseTypeAlias (filter ta_isExported (getTypeAliases sf))"

subsection \<open>Functions\<close>

definition parseParameters :: "ParameterDeclaration list \<Rightarrow> (string \<rightharpoonup> string) \<Rightarrow> ParsedParameter list" where
  "parseParameters params paramDescriptions =
     map (\<lambda>param. \<lparr>param_name = pd_name param,
                    param_type = pd_typeText param,
                    param_required = (\<not> pd_isOptional param \<and> \<not> pd_hasInitializer param),
                    param_description = paramDescriptions (pd_name param)\<rparr>) params"

text \<open>\<open>fn.getName() || "anonymous"\<close>\<close>

definition nameOrAnonymous :: "string option \<Rightarrow> string" where
  "nameOrAnonymous n = (case n of None \<Rightarrow> ''anonymous'' | Some s \<Rightarrow> if s = [] then ''anonymous'' else s)"

definition parseFunctionDeclaration :: "FunctionDeclaration \<Rightarrow> ParsedFunction" where
  "parseFunctionDeclaration fn =
     (let jsDocs = fd_jsDocs fn;
          paramDescriptions = extractParamDescriptions jsDocs
      in \<lparr>fn_name = nameOrAnonymous (fd_name fn),
          fn_description = getJsDocDescription (fd_jsDocs fn),
          fn_parameters = parseParameters (fd_parameters fn) paramDescriptions,
          fn_returnType = fd_returnTypeText fn,
          fn_isAsync = fd_isAsync fn\<rparr>)"

definition parseArrowFunction :: "VariableDeclaration \<times> VariableStatement \<Rightarrow> ArrowFunction \<Rightarrow> ParsedFunction" where
  "parseArrowFunction varDecl arrowFn =
     (let varStatement = snd varDecl;
          jsDocs = vs_jsDocs varStatement;
          paramDescriptions = extractParamDescriptions jsDocs
      in \<lparr>fn_name = vd_name (fst varDecl),
          fn_description = getJsDocDescriptionFromDocs (Some jsDocs),
          fn_parameters = parseParameters (af_parameters arrowFn) paramDescriptions,
          fn_returnType = af_returnTypeText arrowFn,
          fn_isAsync = af_isAsync arrowFn\<rparr>)"

text \<open>The body of the second loop of \<open>parseFunctions\<close>: what one variable declaration pushes.\<close>

definition parseFunctions_varDecl :: "VariableDeclaration \<times> VariableStatement \<Rightarrow> ParsedFunction list" where
  "parseFunctions_varDecl varDecl =
     (if vs_isExported (snd varDecl) then
        (case vd_initializer (fst varDecl) of
           Some (ArrowFunctionInit init) \<Rightarrow> [parseArrowFunction varDecl init]
         | _ \<Rightarrow> [])
      else [])"

definition parseFunctions :: "SourceFile \<Rightarrow> ParsedFunction list" where
  "parseFunctions sf =
     map parseFunctionDeclaration (filter fd_isExported (getFunctions sf)) @
     concat (map parseFunctions_varDecl (getVariableDeclarations sf))"

text \<open>
  \<open>parseFile\<close> on the tree that \<open>project.addSourceFileAtPath(filePath)\<close> returned.
\<close>

definition parseSourceFile :: "string \<Rightarrow> SourceFile \<Rightarrow> ParsedFile" where
  "parseSourceFile path sf =
     \<lparr>filePath = path,
      interfaces = parseInterfaces sf,
      typeAliases = parseTypeAliases sf,
      pf_functions = parseFunctions sf\<rparr>"

text \<open>
  \<open>parseFile\<close>: \<open>addSourceFileAtPath\<close> either throws, with a message, or returns the tree.
\<close>

definition parseFile :: "(string \<Rightarrow> string + SourceFile) \<Rightarrow> string \<Rightarrow> string + ParsedFile" where
  "parseFile addSourceFileAtPath path =
     (case addSourceFileAtPath path of
        Inl message \<Rightarrow> Inl message
      | Inr sf \<Rightarrow> Inr (parseSourceFile path sf))"


section \<open>The command-line driver (cli.ts)\<close>

text \<open>
  \<open>run\<close> is modelled with its collaborators as parameters: \<open>glob\<close>, from the pattern and
  the exclusions to the matched paths, and \<open>parse\<close>, which is \<open>parseFile\<close> on the file system
  of the run: it returns a \<open>ParsedFile\<close> or throws an error with a message. Writing to the
  console and to the output file is taken to succeed. What \<open>run\<close> prints with
  \<open>console.error\<close> is the list of its diagnostics, in order: \<open>FoundFiles n\<close> stands for
  the line \<open>Found n file(s)\<close>, \<open>FailedToParse file message\<close> for
  \<open>Warning: Failed to parse file: message\<close>, \<open>ParsedSummary n i t f\<close> for
  \<open>Parsed n file(s): i interfaces, t types, f functions\<close> and \<open>WroteDocumentation path\<close>
  for \<open>Wrote documentation to path\<close>. The error \<open>NoFilesFound pattern\<close> carries the message
  \<open>No files found matching pattern: pattern\<close>, and \<open>NoExportedTypesFound\<close> the message
  \<open>No exported types found in any files\<close>.
\<close>

datatype Diagnostic =
    FoundFiles nat
  | FailedToParse string string
  | ParsedSummary nat nat nat nat
  | WroteDocumentation string

text \<open>The two errors that \<open>run\<close> throws.\<close>

datatype RunError =
    NoFilesFound string
  | NoExportedTypesFound

text \<open>Where the markdown went: to the file \<open>options.output\<close>, or to the standard output.\<close>

datatype Output =
    WrittenTo string string
  | Printed string

record RunOptions =
  opt_output :: "string option"
  opt_title :: string
  opt_exclude :: "string list"

record RunState =
  parsedFiles :: "ParsedFile list"
  totalInterfaces :: nat
  totalTypes :: nat
  totalFunctions :: nat
  stderr :: "Diagnostic list"

text \<open>The body of the loop over the files: the \<open>try\<close> block and its \<open>catch\<close>.\<close>

definition run_file :: "(string \<Rightarrow> string + ParsedFile) \<Rightarrow> string \<Rightarrow> RunState \<Rightarrow> RunState" where
  "run_file parse file st =
     (case parse file of
        Inl message \<Rightarrow> st\<lparr>stderr := stderr st @ [FailedToParse file message]\<rparr>
      | Inr parsed \<Rightarrow>
          if length (interfaces parsed) > 0 \<or> length (typeAliases parsed) > 0 \<or>
             length (pf_functions parsed) > 0
          then st\<lparr>parsedFiles := parsedFiles st @ [parsed],
                  totalInterfaces := totalInterfaces st + length (interfaces parsed),
                  totalTypes := totalTypes st + length (typeAliases parsed),
                  totalFunctions := totalFunctions st + length (pf_functions parsed)\<rparr>
          else st)"

fun run_loop :: "(string \<Rightarrow> string + ParsedFile) \<Rightarrow> string list \<Rightarrow> RunState \<Rightarrow> RunState" where
  "run_loop parse [] st = st"
| "run_loop parse (file # files) st = run_loop parse files (run_file parse file st)"

definition run :: "(string \<Rightarrow> string list \<Rightarrow> string list) \<Rightarrow> (string \<Rightarrow> string + ParsedFile) \<Rightarrow>
    string \<Rightarrow> RunOptions \<Rightarrow> Diagnostic list \<times> (RunError + Output)" where
  "run glob parse globPattern options =
     (let files = glob globPattern (opt_exclude options) in
      if length files = 0 then ([], Inl (NoFilesFound globPattern))
      else
        (let st = run_loop parse files
                    \<lparr>parsedFiles = [], totalInterfaces = 0, totalTypes = 0, totalFunctions = 0,
                     stderr = [FoundFiles (length files)]\<rparr>
         in
         if length (parsedFiles st) = 0 then (stderr st, Inl NoExportedTypesFound)
         else
           (let summary = ParsedSummary (length (parsedFiles st)) (totalInterfaces st)
                            (totalTypes st) (totalFunctions st);
                markdown = generateMarkdown (parsedFiles st) \<lparr>title = Some (opt_title options)\<rparr>
            in
            case opt_output options of
              None \<Rightarrow> (stderr st @ [summary], Inr (Printed markdown))
            | Some path \<Rightarrow>
                if path = [] then (stderr st @ [summary], Inr (Printed markdown))
                else (stderr st @ [summary, WroteDocumentation path],
                      Inr (WrittenTo path markdown)))))"


section \<open>Definitions for the statements\<close>

subsection \<open>Anchors, as the specification words them\<close>

text \<open>
  The specification normalises an anchor by lower-casing the input and replacing every run of
  one or more characters outside \<open>[a-z0-9]\<close> by a single hyphen. \<open>maximalRuns P xs\<close> cuts
  \<open>xs\<close> into its maximal runs of elements that agree on \<open>P\<close>, each with its truth value.
\<close>

fun maximalRuns :: "('a \<Rightarrow> bool) \<Rightarrow> 'a list \<Rightarrow> (bool \<times> 'a list) list" where
  "maximalRuns P [] = []"
| "maximalRuns P (x # xs) =
     (case maximalRuns P xs of
        [] \<Rightarrow> [(P x, [x])]
      | (b, r) # rest \<Rightarrow> if b = P x then (b, x # r) # rest else (P x, [x]) # (b, r) # rest)"

definition replaceRun :: "bool \<times> string \<Rightarrow> string" where
  "replaceRun r = (if fst r then snd r else ''-'')"

definition toAnchor_spec :: "string \<Rightarrow> string" where
  "toAnchor_spec s = concat (map replaceRun (maximalRuns isLowerAlnum (toLowerCase s)))"

subsection \<open>The interfaces of a document with their display names and anchors\<close>

definition resolvedInterfaces :: "ParsedFile list \<Rightarrow> (string \<times> string) list" where
  "resolvedInterfaces files =
     map (\<lambda>x. (getDisplayName (iface_name (item x)) (sourceFile x) (duplicateNames files),
                getAnchor (iface_name (item x)) (sourceFile x) (duplicateNames files)))
         (allInterfaces files)"

subsection \<open>Declarations in source order\<close>

text \<open>
  The two shapes of a function, and what each statement of a source file exports, statement by
  statement: the list of a file in source declaration order is the concatenation over its
  statements.
\<close>

datatype FunctionShape = NamedDeclaration | ArrowBinding

fun exportedFunctionsOf :: "Statement \<Rightarrow> (FunctionShape \<times> ParsedFunction) list" where
  "exportedFunctionsOf (FunctionStatement fn) =
     (if fd_isExported fn then [(NamedDeclaration, parseFunctionDeclaration fn)] else [])"
| "exportedFunctionsOf (VariableStatementNode vs) =
     map (Pair ArrowBinding)
       (concat (map (\<lambda>d. parseFunctions_varDecl (d, vs)) (vs_declarations vs)))"
| "exportedFunctionsOf s = []"

definition functionsInSourceOrder :: "SourceFile \<Rightarrow> (FunctionShape \<times> ParsedFunction) list" where
  "functionsInSourceOrder sf = concat (map exportedFunctionsOf sf)"

fun exportedInterfacesOf :: "Statement \<Rightarrow> InterfaceDeclaration list" where
  "exportedInterfacesOf (InterfaceStatement d) = (if id_isExported d then [d] else [])"
| "exportedInterfacesOf s = []"

fun exportedTypeAliasesOf :: "Statement \<Rightarrow> TypeAliasDeclaration list" where
  "exportedTypeAliasesOf (TypeAliasStatement d) = (if ta_isExported d then [d] else [])"
| "exportedTypeAliasesOf s = []"

subsection \<open>Parameter descriptions\<close>

text \<open>What one tag of the last block records: the parameter's name and its description.\<close>

fun recordedParam :: "JSDocTag \<Rightarrow> (string \<times> string) option" where
  "recordedParam (JSDocParameterTag tagName paramName (Some text)) =
     (if tagName = ''param'' \<and> paramName \<noteq> [] \<and> \<not> includesDot paramName \<and> trim text \<noteq> []
      then Some (paramName, removeLeadingDash (trim text)) else None)"
| "recordedParam t = None"

text \<open>The specification's stripping: a leading dash followed by one space is removed.\<close>

definition stripDashSpace :: "string \<Rightarrow> string" where
  "stripDashSpace s = (if take 2 s = ''- '' then drop 2 s else s)"

subsection \<open>What a run merges and reports\<close>

text \<open>
  The contribution of one file to the list handed to the generator: its \<open>ParsedFile\<close> when it
  was parsed and has an interface, a type alias or a function, and nothing otherwise.
\<close>

fun contribution :: "string + ParsedFile \<Rightarrow> ParsedFile list" where
  "contribution (Inl message) = []"
| "contribution (Inr parsed) =
     (if interfaces parsed \<noteq> [] \<or> typeAliases parsed \<noteq> [] \<or> pf_functions parsed \<noteq> []
      then [parsed] else [])"

definition mergedResult :: "(string \<Rightarrow> string + ParsedFile) \<Rightarrow> string list \<Rightarrow> ParsedFile list" where
  "mergedResult parse files = concat (map (\<lambda>file. contribution (parse file)) files)"

text \<open>The files that contribute.\<close>

definition contributing :: "(string \<Rightarrow> string + ParsedFile) \<Rightarrow> string list \<Rightarrow> string list" where
  "contributing parse files = filter (\<lambda>file. contribution (parse file) \<noteq> []) files"

text \<open>The warning for one file: one when it could not be parsed, none otherwise.\<close>

fun warning :: "string \<Rightarrow> string + ParsedFile \<Rightarrow> Diagnostic list" where
  "warning file (Inl message) = [FailedToParse file message]"
| "warning file (Inr parsed) = []"

definition warnings :: "(string \<Rightarrow> string + ParsedFile) \<Rightarrow> string list \<Rightarrow> Diagnostic list" where
  "warnings parse files = concat (map (\<lambda>file. warning file (parse file)) files)"

fun isWarning :: "Diagnostic \<Rightarrow> bool" where
  "isWarning (FailedToParse file message) = True"
| "isWarning d = False"

fun markdownOf :: "Output \<Rightarrow> string" where
  "markdownOf (WrittenTo path markdown) = markdown"
| "markdownOf (Printed markdown) = markdown"

subsection \<open>Inputs of the examples\<close>

text \<open>A parsed file whose only item is an interface \<open>Config\<close> without properties.\<close>

definition configInterface :: ParsedInterface where
  "configInterface =
     \<lparr>iface_name = ''Config'', iface_description = None, iface_properties = [],
      iface_extends = None\<rparr>"

definition fileExportingConfig :: "string \<Rightarrow> ParsedFile" where
  "fileExportingConfig path =
     \<lparr>filePath = path, interfaces = [configInterface], typeAliases = [], pf_functions = []\<rparr>"

text \<open>A parsed function \<open>function n(): void\<close>, and a parsed file whose only item it is.\<close>

definition voidFunction :: "string \<Rightarrow> ParsedFunction" where
  "voidFunction n =
     \<lparr>fn_name = n, fn_description = None, fn_parameters = [], fn_returnType = ''void'',
      fn_isAsync = False\<rparr>"

definition fileExportingFunction :: "string \<Rightarrow> string \<Rightarrow> ParsedFile" where
  "fileExportingFunction path n =
     \<lparr>filePath = path, interfaces = [], typeAliases = [], pf_functions = [voidFunction n]\<rparr>"

text \<open>A parsed file with one interface, one type alias and one function.\<close>

definition addressAlias :: ParsedTypeAlias where
  "addressAlias = \<lparr>alias_name = ''Address'', alias_type = ''string'', alias_description = None\<rparr>"

definition fileExportingAll :: ParsedFile where
  "fileExportingAll =
     \<lparr>filePath = ''src/all.ts'', interfaces = [configInterface], typeAliases = [addressAlias],
      pf_functions = [voidFunction ''f'']\<rparr>"

text \<open>A parsed file without any item.\<close>

definition fileExportingNothing :: "string \<Rightarrow> ParsedFile" where
  "fileExportingNothing path =
     \<lparr>filePath = path, interfaces = [], typeAliases = [], pf_functions = []\<rparr>"

text \<open>
  Syntax trees: \<open>export const n = init\<close>, where \<open>init\<close> is \<open>() => {}\<close> or
  \<open>function () {}\<close>, and \<open>export function n() {}\<close>.
\<close>

definition voidArrow :: ArrowFunction where
  "voidArrow = \<lparr>af_parameters = [], af_returnTypeText = ''void'', af_isAsync = False\<rparr>"

definition voidFunctionExpression :: FunctionExpression where
  "voidFunctionExpression =
     \<lparr>fe_name = None, fe_parameters = [], fe_returnTypeText = ''void'', fe_isAsync = False\<rparr>"

definition constDeclaration :: "string \<Rightarrow> Initializer \<Rightarrow> VariableDeclaration" where
  "constDeclaration n init = \<lparr>vd_name = n, vd_initializer = Some init\<rparr>"

definition exportedConst :: "string \<Rightarrow> Initializer \<Rightarrow> VariableStatement" where
  "exportedConst n init =
     \<lparr>vs_isExported = True, vs_jsDocs = [], vs_declarations = [constDeclaration n init]\<rparr>"

definition exportedFunction :: "string \<Rightarrow> FunctionDeclaration" where
  "exportedFunction n =
     \<lparr>fd_name = Some n, fd_isExported = True, fd_jsDocs = [], fd_parameters = [],
      fd_returnTypeText = ''void'', fd_isAsync = False\<rparr>"

text \<open>The file \<open>export const first = () => {}; export function second() {}\<close>.\<close>

definition arrowThenFunction :: SourceFile where
  "arrowThenFunction =
     [VariableStatementNode (exportedConst ''first'' (ArrowFunctionInit voidArrow)),
      FunctionStatement (exportedFunction ''second'')]"

text \<open>A documentation block whose only tag is \<open>@param paramName text\<close>.\<close>

definition docWithParam :: "string \<Rightarrow> string \<Rightarrow> JSDoc" where
  "docWithParam paramName text =
     \<lparr>doc_description = None, doc_tags = [JSDocParameterTag ''param'' paramName (Some text)]\<rparr>"

text \<open>
  A run over three matched files: \<open>a.ts\<close> exports \<open>Config\<close>, \<open>empty.ts\<close> exports nothing,
  and any other file cannot be parsed.
\<close>

definition exampleParse :: "string \<Rightarrow> string + ParsedFile" where
  "exampleParse file =
     (if file = ''a.ts'' then Inr (fileExportingConfig ''a.ts'')
      else if file = ''empty.ts'' then Inr (fileExportingNothing ''empty.ts'')
      else Inl ''syntax error'')"

text \<open>A \<open>glob\<close> that matches the given files, whatever the pattern and the exclusions.\<close>

definition globReturning :: "string list \<Rightarrow> string \<Rightarrow> string list \<Rightarrow> string list" where
  "globReturning files pattern exclude = files"

definition exampleOptions :: RunOptions where
  "exampleOptions = \<lparr>opt_output = None, opt_title = ''API Reference'', opt_exclude = []\<rparr>"


section \<open>Lemmas\<close>

subsection \<open>Trimming\<close>

lemma trim_decompose:
  "\<exists>pre post. s = pre @ trim s @ post \<and> list_all isWhitespace pre \<and> list_all isWhitespace post"
proof -
  let ?a = "takeWhile isWhitespace s" and ?b = "dropWhile isWhitespace s"
  let ?c = "takeWhile isWhitespace (rev ?b)"
  have "rev ?b = ?c @ dropWhile isWhitespace (rev ?b)" by simp
  then have "?b = trim s @ rev ?c" unfolding trim_def by (metis rev_append rev_rev_ident)
  then have "s = ?a @ trim s @ rev ?c" by (metis takeWhile_dropWhile_id)
  moreover have "list_all isWhitespace ?a" by (simp add: list_all_iff) (meson set_takeWhileD)
  moreover have "list_all isWhitespace (rev ?c)" by (simp add: list_all_iff) (meson set_takeWhileD)
  ultimately show ?thesis by blast
qed

lemma last_dropWhile_nonempty: "dropWhile P xs \<noteq> [] \<Longrightarrow> last (dropWhile P xs) = last xs"
  by (metis last_appendR takeWhile_dropWhile_id)

lemma trim_ends:
  "trim s = [] \<or> (\<not> isWhitespace (hd (trim s)) \<and> \<not> isWhitespace (last (trim s)))"
proof (cases "trim s = []")
  case True then show ?thesis by simp
next
  case False
  define b where "b = dropWhile isWhitespace s"
  define r where "r = dropWhile isWhitespace (rev b)"
  have t: "trim s = rev r" by (simp add: trim_def r_def b_def)
  have r: "r \<noteq> []" using False t by simp
  then have "\<not> isWhitespace (hd r)" unfolding r_def by (rule hd_dropWhile)
  then have l: "\<not> isWhitespace (last (trim s))" using r t by (simp add: last_rev)
  have b: "b \<noteq> []" using r unfolding r_def by (cases b) simp_all
  then have hb: "\<not> isWhitespace (hd b)" unfolding b_def by (rule hd_dropWhile)
  have "hd (trim s) = last r" using r t by (simp add: hd_rev)
  also have "\<dots> = last (rev b)" using r unfolding r_def by (rule last_dropWhile_nonempty)
  also have "\<dots> = hd b" using b by (simp add: last_rev)
  finally show ?thesis using hb l by simp
qed

subsection \<open>Runs\<close>

lemma maximalRuns_Cons: "\<exists>r rest. maximalRuns P (x # xs) = (P x, x # r) # rest"
  by (auto split: list.splits)

lemma maximalRuns_concat: "concat (map snd (maximalRuns P xs)) = xs"
  by (induction xs) (auto split: list.splits)

lemma maximalRuns_skip:
  "\<not> isLowerAlnum c \<Longrightarrow>
   concat (map replaceRun (maximalRuns isLowerAlnum (c # cs))) =
   CHR ''-'' # concat (map replaceRun
     (maximalRuns isLowerAlnum (dropWhile (\<lambda>d. \<not> isLowerAlnum d) cs)))"
proof (induction cs arbitrary: c)
  case Nil
  then show ?case by (simp add: replaceRun_def)
next
  case (Cons d ds)
  obtain r rest where m: "maximalRuns isLowerAlnum (d # ds) = (isLowerAlnum d, d # r) # rest"
    using maximalRuns_Cons[of isLowerAlnum d ds] by blast
  show ?case
  proof (cases "isLowerAlnum d")
    case True
    with Cons.prems m show ?thesis by (simp add: replaceRun_def)
  next
    case False
    have "concat (map replaceRun (maximalRuns isLowerAlnum (c # d # ds))) =
          concat (map replaceRun (maximalRuns isLowerAlnum (d # ds)))"
      using Cons.prems False m by (simp add: replaceRun_def)
    with Cons.IH[OF False] False show ?thesis by simp
  qed
qed

lemma replaceNonAlnumRuns_runs:
  "replaceNonAlnumRuns s = concat (map replaceRun (maximalRuns isLowerAlnum s))"
proof (induction s rule: replaceNonAlnumRuns.induct)
  case 1
  then show ?case by simp
next
  case (2 c cs)
  show ?case
  proof (cases "isLowerAlnum c")
    case True
    with 2 show ?thesis by (auto simp: replaceRun_def split: list.splits)
  next
    case False
    with 2 maximalRuns_skip[OF False, of cs] show ?thesis by simp
  qed
qed

subsection \<open>Duplicate names\<close>

lemma count_list_pos: "0 < count_list xs x \<longleftrightarrow> x \<in> set xs"
  by (induction xs) auto

lemma count_list_gt1_mem: "Suc 0 < count_list xs x \<Longrightarrow> x \<in> set xs"
  using count_list_pos[of xs x] by simp

lemma findDuplicateNames_loop_eq:
  "findDuplicateNames_loop ns seen dups =
   dups \<union> {n \<in> set ns. n \<in> seen \<or> 1 < count_list ns n}"
proof (induction ns arbitrary: seen dups)
  case Nil
  then show ?case by simp
next
  case (Cons a ns)
  show ?case by (auto simp: Cons.IH count_list_pos)
qed

lemma findDuplicateNames_eq: "findDuplicateNames names = {n. 1 < count_list names n}"
  unfolding findDuplicateNames_def findDuplicateNames_loop_eq
  by (auto dest: count_list_gt1_mem)

lemmas resolve_simps =
  configInterface_def fileExportingConfig_def resolvedInterfaces_def
  allInterfaces_def allTypeAliases_def allFunctions_def pooledNames_def duplicateNames_def
  findDuplicateNames_def getDisplayName_def getAnchor_def toAnchor_def toLowerCase_def
  toLowerCaseChar_def isLowerAlnum_def basename_def

subsection \<open>Headings and entries of the table of contents\<close>

lemma function_lines:
  assumes x: "x \<in> set (allFunctions files)"
  shows "''## '' @ getDisplayName (fn_name (item x)) (sourceFile x) (duplicateNames files) @ ''()''
     \<in> set (generateMarkdownLines files options) \<and>
   ''- ['' @ getDisplayName (fn_name (item x)) (sourceFile x) (duplicateNames files) @ ''()](#'' @
     getAnchor (fn_name (item x)) (sourceFile x) (duplicateNames files) @ '')''
     \<in> set (generateMarkdownLines files options)"
proof -
  let ?dups = "duplicateNames files"
  have "''## '' @ getDisplayName (fn_name (item x)) (sourceFile x) ?dups @ ''()''
          \<in> set (generateFunction (item x) (sourceFile x) ?dups)"
    by (simp add: generateFunction_def Let_def)
  with x have h: "''## '' @ getDisplayName (fn_name (item x)) (sourceFile x) ?dups @ ''()''
     \<in> set (generateMarkdownLines files options)"
    by (auto simp: generateMarkdownLines_def Let_def)
  from x have ne: "allFunctions files \<noteq> []" by auto
  have "tocEntry (fn_name (item x)) (sourceFile x) ?dups ''()'' \<in> set (tableOfContents files)"
    using x ne by (auto simp: tableOfContents_def Let_def)
  then have "tocEntry (fn_name (item x)) (sourceFile x) ?dups ''()''
      \<in> set (generateMarkdownLines files options)"
    by (simp add: generateMarkdownLines_def Let_def)
  with h show ?thesis by (simp add: tocEntry_def)
qed

lemma interface_lines:
  assumes x: "x \<in> set (allInterfaces files)"
  shows "''## '' @ getDisplayName (iface_name (item x)) (sourceFile x) (duplicateNames files)
     \<in> set (generateMarkdownLines files options) \<and>
   ''- ['' @ getDisplayName (iface_name (item x)) (sourceFile x) (duplicateNames files) @ ''](#'' @
     getAnchor (iface_name (item x)) (sourceFile x) (duplicateNames files) @ '')''
     \<in> set (generateMarkdownLines files options)"
proof -
  let ?dups = "duplicateNames files"
  have "''## '' @ getDisplayName (iface_name (item x)) (sourceFile x) ?dups
          \<in> set (generateInterface (item x) (sourceFile x) ?dups)"
    by (simp add: generateInterface_def Let_def)
  with x have h: "''## '' @ getDisplayName (iface_name (item x)) (sourceFile x) ?dups
     \<in> set (generateMarkdownLines files options)"
    by (auto simp: generateMarkdownLines_def Let_def)
  from x have ne: "allInterfaces files \<noteq> []" by auto
  have "tocEntry (iface_name (item x)) (sourceFile x) ?dups [] \<in> set (tableOfContents files)"
    using x ne by (auto simp: tableOfContents_def Let_def)
  then have "tocEntry (iface_name (item x)) (sourceFile x) ?dups []
      \<in> set (generateMarkdownLines files options)"
    by (simp add: generateMarkdownLines_def Let_def)
  with h show ?thesis by (simp add: tocEntry_def)
qed

lemma typeAlias_lines:
  assumes x: "x \<in> set (allTypeAliases files)"
  shows "''## '' @ getDisplayName (alias_name (item x)) (sourceFile x) (duplicateNames files)
     \<in> set (generateMarkdownLines files options) \<and>
   ''- ['' @ getDisplayName (alias_name (item x)) (sourceFile x) (duplicateNames files) @ ''](#'' @
     getAnchor (alias_name (item x)) (sourceFile x) (duplicateNames files) @ '')''
     \<in> set (generateMarkdownLines files options)"
proof -
  let ?dups = "duplicateNames files"
  have "''## '' @ getDisplayName (alias_name (item x)) (sourceFile x) ?dups
          \<in> set (generateTypeAlias (item x) (sourceFile x) ?dups)"
    by (simp add: generateTypeAlias_def Let_def)
  with x have h: "''## '' @ getDisplayName (alias_name (item x)) (sourceFile x) ?dups
     \<in> set (generateMarkdownLines files options)"
    by (auto simp: generateMarkdownLines_def Let_def)
  from x have ne: "allTypeAliases files \<noteq> []" by auto
  have "tocEntry (alias_name (item x)) (sourceFile x) ?dups [] \<in> set (tableOfContents files)"
    using x ne by (auto simp: tableOfContents_def Let_def)
  then have "tocEntry (alias_name (item x)) (sourceFile x) ?dups []
      \<in> set (generateMarkdownLines files options)"
    by (simp add: generateMarkdownLines_def Let_def)
  with h show ?thesis by (simp add: tocEntry_def)
qed

lemmas render_simps =
  generateMarkdownLines_def tableOfContents_def tocEntry_def
  generateFunction_def generateInterface_def generateTypeAlias_def descriptionLines_def
  escapeMarkdown_def Let_def voidFunction_def fileExportingFunction_def fileExportingAll_def
  addressAlias_def configInterface_def
  allInterfaces_def allTypeAliases_def allFunctions_def pooledNames_def duplicateNames_def
  findDuplicateNames_def getDisplayName_def getAnchor_def toAnchor_def toLowerCase_def
  toLowerCaseChar_def isLowerAlnum_def basename_def

lemma function_document:
  "generateMarkdownLines [fileExportingFunction ''src/m.ts'' ''f''] \<lparr>title = None\<rparr> =
     [''# API Reference'', [],
      ''## Table of Contents'', [],
      ''### Functions'', [],
      ''- [f()](#f)'', [],
      ''---'', [],
      ''## f()'', [],
      ''```typescript'', ''function f(): void'', ''```'', [],
      ''**Returns:** `void`'', [],
      ''---'', []]"
  by (simp add: render_simps)

subsection \<open>The lists of a parsed file\<close>

lemma exported_interfaces:
  "filter id_isExported (getInterfaces sf) = concat (map exportedInterfacesOf sf)"
  by (induction sf rule: getInterfaces.induct) auto

lemma exported_typeAliases:
  "filter ta_isExported (getTypeAliases sf) = concat (map exportedTypeAliasesOf sf)"
  by (induction sf rule: getTypeAliases.induct) auto

lemma named_part:
  "map snd (filter (\<lambda>x. fst x = NamedDeclaration) (functionsInSourceOrder sf)) =
   map parseFunctionDeclaration (filter fd_isExported (getFunctions sf))"
  unfolding functionsInSourceOrder_def
  by (induction sf rule: getFunctions.induct) (auto simp: filter_map comp_def)

lemma arrow_part:
  "map snd (filter (\<lambda>x. fst x = ArrowBinding) (functionsInSourceOrder sf)) =
   concat (map parseFunctions_varDecl (getVariableDeclarations sf))"
  unfolding functionsInSourceOrder_def getVariableDeclarations_def
  by (induction sf rule: getVariableStatements.induct) (auto simp: filter_map comp_def map_concat)

lemma set_getFunctions: "set (getFunctions sf) = {fn. FunctionStatement fn \<in> set sf}"
  by (induction sf rule: getFunctions.induct) auto

lemma set_getVariableStatements:
  "set (getVariableStatements sf) = {vs. VariableStatementNode vs \<in> set sf}"
  by (induction sf rule: getVariableStatements.induct) auto

lemma set_getVariableDeclarations:
  "set (getVariableDeclarations sf) =
     {(d, vs). VariableStatementNode vs \<in> set sf \<and> d \<in> set (vs_declarations vs)}"
  by (auto simp: getVariableDeclarations_def set_getVariableStatements)

lemma parseFunctions_varDecl_cases:
  "parseFunctions_varDecl (d, vs) =
     (case vd_initializer d of
        Some (ArrowFunctionInit a) \<Rightarrow>
          if vs_isExported vs then [parseArrowFunction (d, vs) a] else []
      | _ \<Rightarrow> [])"
  by (auto simp: parseFunctions_varDecl_def split: option.splits Initializer.splits)

lemmas parse_simps =
  parseSourceFile_def parseFunctions_def parseFunctions_varDecl_def
  getVariableDeclarations_def parseFunctionDeclaration_def parseArrowFunction_def Let_def
  functionsInSourceOrder_def exportedConst_def constDeclaration_def exportedFunction_def
  voidArrow_def voidFunctionExpression_def arrowThenFunction_def nameOrAnonymous_def
  parseParameters_def getJsDocDescription_def getJsDocDescriptionFromDocs_def
  extractParamDescriptions_def

subsection \<open>Parameter descriptions\<close>

lemma extractParamDescriptions_tag_eq:
  "extractParamDescriptions_tag tag m =
     (case recordedParam tag of None \<Rightarrow> m | Some (k, v) \<Rightarrow> m(k \<mapsto> v))"
  by (cases tag rule: recordedParam.cases) (auto split: option.splits)

lemma extractParamDescriptions_loop_eq:
  "extractParamDescriptions_loop tags m = m ++ map_of (rev (List.map_filter recordedParam tags))"
proof (induction tags arbitrary: m)
  case Nil
  then show ?case by (simp add: List.map_filter_simps)
next
  case (Cons t ts)
  show ?case
  proof (cases "recordedParam t")
    case None
    then show ?thesis
      by (simp add: Cons.IH extractParamDescriptions_tag_eq List.map_filter_simps)
  next
    case (Some kv)
    obtain k v where kv: "kv = (k, v)" by (cases kv)
    have step: "extractParamDescriptions_tag t m = m(k \<mapsto> v)"
      using Some kv by (simp add: extractParamDescriptions_tag_eq)
    have mf: "List.map_filter recordedParam (t # ts) = (k, v) # List.map_filter recordedParam ts"
      using Some kv by (simp add: List.map_filter_simps)
    have "extractParamDescriptions_loop (t # ts) m =
          m(k \<mapsto> v) ++ map_of (rev (List.map_filter recordedParam ts))"
      by (simp only: extractParamDescriptions_loop.simps step Cons.IH)
    also have "\<dots> = m ++ map_of (rev ((k, v) # List.map_filter recordedParam ts))"
      by (simp add: map_add_upd_left)
    finally show ?thesis
      by (simp only: mf)
  qed
qed

subsection \<open>The run\<close>

lemma run_file_parsedFiles:
  "parsedFiles (run_file parse file st) = parsedFiles st @ contribution (parse file)"
  by (cases "parse file") (auto simp: run_file_def)

lemma run_file_stderr:
  "stderr (run_file parse file st) = stderr st @ warning file (parse file)"
  by (cases "parse file") (auto simp: run_file_def)

lemma run_loop_parsedFiles:
  "parsedFiles (run_loop parse files st) = parsedFiles st @ mergedResult parse files"
  by (induction files arbitrary: st) (simp_all add: mergedResult_def run_file_parsedFiles)

lemma run_loop_stderr:
  "stderr (run_loop parse files st) = stderr st @ warnings parse files"
  by (induction files arbitrary: st) (simp_all add: warnings_def run_file_stderr)

lemma filter_warnings: "filter isWarning (warnings parse files) = warnings parse files"
proof -
  have "filter isWarning (warning f r) = warning f r" for f r by (cases r) simp_all
  then show ?thesis by (induction files) (simp_all add: warnings_def)
qed

lemma warnings_Nil: "warnings parse [] = []"
  by (simp add: warnings_def)

lemma mergedResult_empty:
  "mergedResult parse files = [] \<longleftrightarrow> (\<forall>file \<in> set files. contribution (parse file) = [])"
  by (simp add: mergedResult_def)

lemma mergedResult_nonempty_files:
  assumes "parsed \<in> set (mergedResult parse files)"
  shows "interfaces parsed \<noteq> [] \<or> typeAliases parsed \<noteq> [] \<or> pf_functions parsed \<noteq> []"
proof -
  from assms obtain f where "parsed \<in> set (contribution (parse f))"
    by (auto simp: mergedResult_def)
  then show ?thesis by (cases "parse f") (auto split: if_splits)
qed

lemma mergedResult_filter:
  "mergedResult parse (filter (\<lambda>file. contribution (parse file) \<noteq> []) files) =
   mergedResult parse files"
  by (induction files) (simp_all add: mergedResult_def)

lemma run_outcome:
  "snd (run glob parse globPattern options) =
     (let files = glob globPattern (opt_exclude options) in
      if files = [] then Inl (NoFilesFound globPattern)
      else if mergedResult parse files = [] then Inl NoExportedTypesFound
      else (let markdown = generateMarkdown (mergedResult parse files)
                             \<lparr>title = Some (opt_title options)\<rparr>
            in case opt_output options of
                 None \<Rightarrow> Inr (Printed markdown)
               | Some path \<Rightarrow>
                   if path = [] then Inr (Printed markdown) else Inr (WrittenTo path markdown)))"
  by (simp add: run_def Let_def run_loop_parsedFiles split: option.splits)

lemma run_warnings:
  "filter isWarning (fst (run glob parse globPattern options)) =
     warnings parse (glob globPattern (opt_exclude options))"
  by (auto simp: run_def Let_def run_loop_stderr filter_warnings warnings_Nil split: option.splits)

lemmas run_simps =
  exampleParse_def exampleOptions_def fileExportingConfig_def fileExportingNothing_def
  configInterface_def mergedResult_def warnings_def contributing_def globReturning_def


section \<open>The claims\<close>

subsection \<open>C1: the order of the items of a parsed file\<close>

text \<open>
  Claim C1, as amended. The interfaces and the type aliases of a \<open>ParsedFile\<close> are in source
  declaration order. Its functions are the exported named function declarations in source
  order, followed by the exported arrow-function bindings in source order: the list in source
  order, stably partitioned by shape.
\<close>

theorem parsed_file_order:
  "interfaces (parseSourceFile path sf) =
     map parseInterface (concat (map exportedInterfacesOf sf)) \<and>
   typeAliases (parseSourceFile path sf) =
     map parseTypeAlias (concat (map exportedTypeAliasesOf sf)) \<and>
   pf_functions (parseSourceFile path sf) =
     map snd (filter (\<lambda>x. fst x = NamedDeclaration) (functionsInSourceOrder sf)) @
     map snd (filter (\<lambda>x. fst x = ArrowBinding) (functionsInSourceOrder sf))"
  by (simp add: parseSourceFile_def parseInterfaces_def parseTypeAliases_def parseFunctions_def
      exported_interfaces exported_typeAliases named_part arrow_part)

theorem parsed_file_order_witness:
  "map fn_name
     (map snd (filter (\<lambda>x. fst x = NamedDeclaration) (functionsInSourceOrder arrowThenFunction)) @
      map snd (filter (\<lambda>x. fst x = ArrowBinding) (functionsInSourceOrder arrowThenFunction))) =
     [''second'', ''first''] \<and>
   map fn_name (pf_functions (parseSourceFile ''m.ts'' arrowThenFunction)) = [''second'', ''first'']"
proof -
  have "map fn_name (pf_functions (parseSourceFile ''m.ts'' arrowThenFunction)) =
          [''second'', ''first'']"
    by (simp add: parse_simps)
  then show ?thesis
    using parsed_file_order [of "''m.ts''" arrowThenFunction] by simp
qed

text \<open>
  Claim C1, as stated, fails: in \<open>export const first = () => {}; export function second() {}\<close>
  the arrow-function binding precedes the function declaration, and it comes after it in the
  functions of the parsed file.
\<close>

theorem arrow_before_function_counterexample:
  "map (fn_name \<circ> snd) (functionsInSourceOrder arrowThenFunction) = [''first'', ''second''] \<and>
   map fn_name (pf_functions (parseSourceFile ''m.ts'' arrowThenFunction)) = [''second'', ''first'']"
  by (simp add: parse_simps)

subsection \<open>C2: the two shapes of a function\<close>

text \<open>
  Claim C2, as amended. Every exported top-level variable declaration whose initializer is an
  arrow function produces a \<open>ParsedFunction\<close> whose name is the variable's binding name; a
  declaration with any other initializer, a \<open>function\<close> expression among them, produces
  nothing. The functions of a parsed file come from exported named function declarations and
  from such arrow-function bindings only, and a declaration and a binding with the same name,
  documentation, parameters, return type and async marker give the same record.
\<close>

theorem arrow_bindings_are_functions:
  "(VariableStatementNode vs \<in> set sf \<and> vs_isExported vs \<and> d \<in> set (vs_declarations vs) \<and>
    vd_initializer d = Some (ArrowFunctionInit a) \<longrightarrow>
      parseArrowFunction (d, vs) a \<in> set (pf_functions (parseSourceFile path sf)) \<and>
      fn_name (parseArrowFunction (d, vs) a) = vd_name d) \<and>
   ((\<forall>a. vd_initializer d \<noteq> Some (ArrowFunctionInit a)) \<longrightarrow>
      parseFunctions_varDecl (d, vs) = []) \<and>
   (p \<in> set (pf_functions (parseSourceFile path sf)) \<longrightarrow>
      (\<exists>fn. FunctionStatement fn \<in> set sf \<and> fd_isExported fn \<and>
            p = parseFunctionDeclaration fn) \<or>
      (\<exists>vs d a. VariableStatementNode vs \<in> set sf \<and> vs_isExported vs \<and>
         d \<in> set (vs_declarations vs) \<and> vd_initializer d = Some (ArrowFunctionInit a) \<and>
         p = parseArrowFunction (d, vs) a)) \<and>
   (fd_name fn = Some (vd_name d) \<and> vd_name d \<noteq> [] \<and> fd_jsDocs fn = vs_jsDocs vs \<and>
    fd_parameters fn = af_parameters a \<and> fd_returnTypeText fn = af_returnTypeText a \<and>
    fd_isAsync fn = af_isAsync a \<longrightarrow>
      parseFunctionDeclaration fn = parseArrowFunction (d, vs) a)"
proof -
  have 1: "VariableStatementNode vs \<in> set sf \<and> vs_isExported vs \<and>
    d \<in> set (vs_declarations vs) \<and> vd_initializer d = Some (ArrowFunctionInit a) \<longrightarrow>
      parseArrowFunction (d, vs) a \<in> set (pf_functions (parseSourceFile path sf)) \<and>
      fn_name (parseArrowFunction (d, vs) a) = vd_name d"
  proof
    assume h: "VariableStatementNode vs \<in> set sf \<and> vs_isExported vs \<and>
      d \<in> set (vs_declarations vs) \<and> vd_initializer d = Some (ArrowFunctionInit a)"
    then have "(d, vs) \<in> set (getVariableDeclarations sf)"
      by (simp add: set_getVariableDeclarations)
    moreover have "parseArrowFunction (d, vs) a \<in> set (parseFunctions_varDecl (d, vs))"
      using h by (simp add: parseFunctions_varDecl_cases)
    ultimately have "parseArrowFunction (d, vs) a \<in> set (parseFunctions sf)"
      unfolding parseFunctions_def by auto
    moreover have "fn_name (parseArrowFunction (d, vs) a) = vd_name d"
      by (simp add: parseArrowFunction_def Let_def)
    ultimately show
      "parseArrowFunction (d, vs) a \<in> set (pf_functions (parseSourceFile path sf)) \<and>
       fn_name (parseArrowFunction (d, vs) a) = vd_name d"
      by (simp add: parseSourceFile_def)
  qed
  have 2: "(\<forall>a. vd_initializer d \<noteq> Some (ArrowFunctionInit a)) \<longrightarrow>
      parseFunctions_varDecl (d, vs) = []"
    by (auto simp: parseFunctions_varDecl_cases split: option.splits Initializer.splits)
  have 3: "p \<in> set (pf_functions (parseSourceFile path sf)) \<longrightarrow>
      (\<exists>fn. FunctionStatement fn \<in> set sf \<and> fd_isExported fn \<and>
            p = parseFunctionDeclaration fn) \<or>
      (\<exists>vs d a. VariableStatementNode vs \<in> set sf \<and> vs_isExported vs \<and>
         d \<in> set (vs_declarations vs) \<and> vd_initializer d = Some (ArrowFunctionInit a) \<and>
         p = parseArrowFunction (d, vs) a)"
  proof
    assume "p \<in> set (pf_functions (parseSourceFile path sf))"
    then consider
      (decl) "p \<in> parseFunctionDeclaration ` {fn \<in> set (getFunctions sf). fd_isExported fn}"
      | (arrow) dv where "dv \<in> set (getVariableDeclarations sf)"
          "p \<in> set (parseFunctions_varDecl dv)"
      by (auto simp: parseSourceFile_def parseFunctions_def)
    then show
      "(\<exists>fn. FunctionStatement fn \<in> set sf \<and> fd_isExported fn \<and>
            p = parseFunctionDeclaration fn) \<or>
       (\<exists>vs d a. VariableStatementNode vs \<in> set sf \<and> vs_isExported vs \<and>
          d \<in> set (vs_declarations vs) \<and> vd_initializer d = Some (ArrowFunctionInit a) \<and>
          p = parseArrowFunction (d, vs) a)"
    proof cases
      case decl
      then show ?thesis by (auto simp: set_getFunctions)
    next
      case arrow
      obtain d' vs' where dv: "dv = (d', vs')" by (cases dv)
      with arrow have mem: "VariableStatementNode vs' \<in> set sf" "d' \<in> set (vs_declarations vs')"
        by (simp_all add: set_getVariableDeclarations)
      have "\<exists>a'. vd_initializer d' = Some (ArrowFunctionInit a') \<and> vs_isExported vs' \<and>
                 p = parseArrowFunction (d', vs') a'"
        using arrow(2) dv
        by (cases "vd_initializer d'")
           (auto simp: parseFunctions_varDecl_cases split: Initializer.splits if_splits)
      with mem show ?thesis by blast
    qed
  qed
  have 4: "fd_name fn = Some (vd_name d) \<and> vd_name d \<noteq> [] \<and> fd_jsDocs fn = vs_jsDocs vs \<and>
    fd_parameters fn = af_parameters a \<and> fd_returnTypeText fn = af_returnTypeText a \<and>
    fd_isAsync fn = af_isAsync a \<longrightarrow>
      parseFunctionDeclaration fn = parseArrowFunction (d, vs) a"
    by (simp add: parseFunctionDeclaration_def parseArrowFunction_def nameOrAnonymous_def
        getJsDocDescription_def Let_def)
  from 1 2 3 4 show ?thesis by blast
qed

theorem arrow_bindings_are_functions_witness:
  "VariableStatementNode (exportedConst ''first'' (ArrowFunctionInit voidArrow))
     \<in> set arrowThenFunction \<and>
   vs_isExported (exportedConst ''first'' (ArrowFunctionInit voidArrow)) \<and>
   constDeclaration ''first'' (ArrowFunctionInit voidArrow)
     \<in> set (vs_declarations (exportedConst ''first'' (ArrowFunctionInit voidArrow))) \<and>
   parseArrowFunction
     (constDeclaration ''first'' (ArrowFunctionInit voidArrow),
      exportedConst ''first'' (ArrowFunctionInit voidArrow)) voidArrow
     \<in> set (pf_functions (parseSourceFile ''m.ts'' arrowThenFunction)) \<and>
   fn_name (parseArrowFunction
     (constDeclaration ''first'' (ArrowFunctionInit voidArrow),
      exportedConst ''first'' (ArrowFunctionInit voidArrow)) voidArrow) = ''first'' \<and>
   parseFunctions_varDecl
     (constDeclaration ''handler'' (FunctionExpressionInit voidFunctionExpression),
      exportedConst ''handler'' (FunctionExpressionInit voidFunctionExpression)) = [] \<and>
   parseFunctionDeclaration (exportedFunction ''first'') =
     parseArrowFunction
       (constDeclaration ''first'' (ArrowFunctionInit voidArrow),
        exportedConst ''first'' (ArrowFunctionInit voidArrow)) voidArrow \<and>
   parseFunctionDeclaration (exportedFunction ''second'')
     \<in> set (pf_functions (parseSourceFile ''m.ts'' arrowThenFunction)) \<and>
   ((\<exists>fn. FunctionStatement fn \<in> set arrowThenFunction \<and> fd_isExported fn \<and>
          parseFunctionDeclaration (exportedFunction ''second'') = parseFunctionDeclaration fn) \<or>
    (\<exists>vs d a. VariableStatementNode vs \<in> set arrowThenFunction \<and> vs_isExported vs \<and>
       d \<in> set (vs_declarations vs) \<and> vd_initializer d = Some (ArrowFunctionInit a) \<and>
       parseFunctionDeclaration (exportedFunction ''second'') = parseArrowFunction (d, vs) a))"
proof -
  have p: "parseFunctionDeclaration (exportedFunction ''second'')
     \<in> set (pf_functions (parseSourceFile ''m.ts'' arrowThenFunction))"
    by (simp add: parseSourceFile_def parseFunctions_def arrowThenFunction_def
        exportedFunction_def)
  have mem: "VariableStatementNode (exportedConst ''first'' (ArrowFunctionInit voidArrow))
               \<in> set arrowThenFunction"
    by (simp add: arrowThenFunction_def)
  have ex: "vs_isExported (exportedConst ''first'' (ArrowFunctionInit voidArrow))"
    by (simp add: exportedConst_def)
  have decl: "constDeclaration ''first'' (ArrowFunctionInit voidArrow)
     \<in> set (vs_declarations (exportedConst ''first'' (ArrowFunctionInit voidArrow)))"
    by (simp add: exportedConst_def)
  have init: "vd_initializer (constDeclaration ''first'' (ArrowFunctionInit voidArrow)) =
     Some (ArrowFunctionInit voidArrow)"
    by (simp add: constDeclaration_def)
  have name: "vd_name (constDeclaration ''first'' (ArrowFunctionInit voidArrow)) = ''first''"
    by (simp add: constDeclaration_def)
  have same: "fd_name (exportedFunction ''first'') = Some ''first'' \<and>
    fd_jsDocs (exportedFunction ''first'') =
      vs_jsDocs (exportedConst ''first'' (ArrowFunctionInit voidArrow)) \<and>
    fd_parameters (exportedFunction ''first'') = af_parameters voidArrow \<and>
    fd_returnTypeText (exportedFunction ''first'') = af_returnTypeText voidArrow \<and>
    fd_isAsync (exportedFunction ''first'') = af_isAsync voidArrow"
    by (simp add: exportedFunction_def exportedConst_def voidArrow_def)
  have other: "\<forall>a. vd_initializer
      (constDeclaration ''handler'' (FunctionExpressionInit voidFunctionExpression)) \<noteq>
      Some (ArrowFunctionInit a)"
    by (simp add: constDeclaration_def)
  show ?thesis
    using mem ex decl init name same other p
      arrow_bindings_are_functions
        [where vs = "exportedConst ''first'' (ArrowFunctionInit voidArrow)"
           and sf = arrowThenFunction
           and d = "constDeclaration ''first'' (ArrowFunctionInit voidArrow)"
           and a = voidArrow and path = "''m.ts''" and fn = "exportedFunction ''first''"
           and p = "parseFunctionDeclaration (exportedFunction ''second'')"]
      arrow_bindings_are_functions
        [where vs = "exportedConst ''handler'' (FunctionExpressionInit voidFunctionExpression)"
           and d = "constDeclaration ''handler'' (FunctionExpressionInit voidFunctionExpression)"]
    by simp
qed

text \<open>
  Claim C2, as stated, fails: \<open>export const handler = function () {}\<close> binds an anonymous
  function expression, and the parsed file has no function.
\<close>

theorem function_expression_counterexample:
  "pf_functions (parseSourceFile ''m.ts''
      [VariableStatementNode
         (exportedConst ''handler'' (FunctionExpressionInit voidFunctionExpression))]) = []"
  by (simp add: parse_simps)

subsection \<open>C3: headings and the table of contents\<close>

text \<open>
  Claim C3, as amended. The section of a function begins with the level-2 heading made of its
  display name followed by \<open>()\<close>, and its entry in the table of contents is a link whose text
  is the display name followed by \<open>()\<close> and whose target is its anchor. For an interface
  and for a type alias the heading and the link text are exactly the display name, and the
  target is the anchor.
\<close>

theorem headings_and_contents_entries:
  "hd (generateFunction fn src dups) = ''## '' @ getDisplayName (fn_name fn) src dups @ ''()'' \<and>
   hd (generateInterface iface src dups) = ''## '' @ getDisplayName (iface_name iface) src dups \<and>
   hd (generateTypeAlias alias src dups) = ''## '' @ getDisplayName (alias_name alias) src dups \<and>
   (f \<in> set (allFunctions files) \<longrightarrow>
      ''## '' @ getDisplayName (fn_name (item f)) (sourceFile f) (duplicateNames files) @ ''()''
        \<in> set (generateMarkdownLines files options) \<and>
      ''- ['' @ getDisplayName (fn_name (item f)) (sourceFile f) (duplicateNames files) @
        ''()](#'' @ getAnchor (fn_name (item f)) (sourceFile f) (duplicateNames files) @ '')''
        \<in> set (generateMarkdownLines files options)) \<and>
   (i \<in> set (allInterfaces files) \<longrightarrow>
      ''## '' @ getDisplayName (iface_name (item i)) (sourceFile i) (duplicateNames files)
        \<in> set (generateMarkdownLines files options) \<and>
      ''- ['' @ getDisplayName (iface_name (item i)) (sourceFile i) (duplicateNames files) @
        ''](#'' @ getAnchor (iface_name (item i)) (sourceFile i) (duplicateNames files) @ '')''
        \<in> set (generateMarkdownLines files options)) \<and>
   (t \<in> set (allTypeAliases files) \<longrightarrow>
      ''## '' @ getDisplayName (alias_name (item t)) (sourceFile t) (duplicateNames files)
        \<in> set (generateMarkdownLines files options) \<and>
      ''- ['' @ getDisplayName (alias_name (item t)) (sourceFile t) (duplicateNames files) @
        ''](#'' @ getAnchor (alias_name (item t)) (sourceFile t) (duplicateNames files) @ '')''
        \<in> set (generateMarkdownLines files options))"
proof -
  have "hd (generateFunction fn src dups) =
          ''## '' @ getDisplayName (fn_name fn) src dups @ ''()''"
    by (simp add: generateFunction_def Let_def)
  moreover have "hd (generateInterface iface src dups) =
          ''## '' @ getDisplayName (iface_name iface) src dups"
    by (simp add: generateInterface_def Let_def)
  moreover have "hd (generateTypeAlias alias src dups) =
          ''## '' @ getDisplayName (alias_name alias) src dups"
    by (simp add: generateTypeAlias_def Let_def)
  ultimately show ?thesis
    using function_lines [of f files options] interface_lines [of i files options]
      typeAlias_lines [of t files options]
    by blast
qed

theorem headings_and_contents_entries_witness:
  "\<lparr>item = voidFunction ''f'', sourceFile = ''all.ts''\<rparr> \<in> set (allFunctions [fileExportingAll]) \<and>
   \<lparr>item = configInterface, sourceFile = ''all.ts''\<rparr> \<in> set (allInterfaces [fileExportingAll]) \<and>
   \<lparr>item = addressAlias, sourceFile = ''all.ts''\<rparr> \<in> set (allTypeAliases [fileExportingAll]) \<and>
   ''## f()'' \<in> set (generateMarkdownLines [fileExportingAll] \<lparr>title = None\<rparr>) \<and>
   ''- [f()](#f)'' \<in> set (generateMarkdownLines [fileExportingAll] \<lparr>title = None\<rparr>) \<and>
   ''## Config'' \<in> set (generateMarkdownLines [fileExportingAll] \<lparr>title = None\<rparr>) \<and>
   ''- [Config](#config)'' \<in> set (generateMarkdownLines [fileExportingAll] \<lparr>title = None\<rparr>) \<and>
   ''## Address'' \<in> set (generateMarkdownLines [fileExportingAll] \<lparr>title = None\<rparr>) \<and>
   ''- [Address](#address)'' \<in> set (generateMarkdownLines [fileExportingAll] \<lparr>title = None\<rparr>)"
proof -
  have f: "\<lparr>item = voidFunction ''f'', sourceFile = ''all.ts''\<rparr>
             \<in> set (allFunctions [fileExportingAll])"
    by (simp add: allFunctions_def fileExportingAll_def basename_def)
  have i: "\<lparr>item = configInterface, sourceFile = ''all.ts''\<rparr>
             \<in> set (allInterfaces [fileExportingAll])"
    by (simp add: allInterfaces_def fileExportingAll_def basename_def)
  have t: "\<lparr>item = addressAlias, sourceFile = ''all.ts''\<rparr>
             \<in> set (allTypeAliases [fileExportingAll])"
    by (simp add: allTypeAliases_def fileExportingAll_def basename_def)
  have dups: "duplicateNames [fileExportingAll] = {}"
    by (simp add: render_simps)
  show ?thesis
    using f i t
      headings_and_contents_entries
        [where f = "\<lparr>item = voidFunction ''f'', sourceFile = ''all.ts''\<rparr>"
           and files = "[fileExportingAll]" and options = "\<lparr>title = None\<rparr>"
           and i = "\<lparr>item = configInterface, sourceFile = ''all.ts''\<rparr>"
           and t = "\<lparr>item = addressAlias, sourceFile = ''all.ts''\<rparr>"]
    by (simp add: dups getDisplayName_def getAnchor_def toAnchor_def toLowerCase_def
        toLowerCaseChar_def isLowerAlnum_def voidFunction_def configInterface_def
        addressAlias_def)
qed

text \<open>
  Claim C3, as stated, fails: for a file whose only item is the function \<open>f\<close>, the display
  name is \<open>f\<close> and the anchor is \<open>f\<close>, and neither the heading \<open>## f\<close> nor the entry
  \<open>- [f](#f)\<close> is a line of the document; the lines are \<open>## f()\<close> and \<open>- [f()](#f)\<close>.
\<close>

theorem function_heading_counterexample:
  "getDisplayName ''f'' ''m.ts'' (duplicateNames [fileExportingFunction ''src/m.ts'' ''f'']) = ''f'' \<and>
   getAnchor ''f'' ''m.ts'' (duplicateNames [fileExportingFunction ''src/m.ts'' ''f'']) = ''f'' \<and>
   ''## f'' \<notin> set (generateMarkdownLines [fileExportingFunction ''src/m.ts'' ''f'']
                      \<lparr>title = None\<rparr>) \<and>
   ''- [f](#f)'' \<notin> set (generateMarkdownLines [fileExportingFunction ''src/m.ts'' ''f'']
                          \<lparr>title = None\<rparr>) \<and>
   ''## f()'' \<in> set (generateMarkdownLines [fileExportingFunction ''src/m.ts'' ''f'']
                        \<lparr>title = None\<rparr>) \<and>
   ''- [f()](#f)'' \<in> set (generateMarkdownLines [fileExportingFunction ''src/m.ts'' ''f'']
                            \<lparr>title = None\<rparr>)"
  by (simp add: function_document) (simp add: render_simps)

subsection \<open>C4: display names and anchors of duplicated names\<close>

text \<open>
  Claim C4, as amended. For a name that occurs more than once in the pooled list of names,
  every occurrence has the display label \<open>name (base)\<close> and the anchor that normalises
  \<open>name-base\<close>, where \<open>base\<close> is the base name of the occurrence's file; two occurrences have
  the same display label exactly when their base names are equal. A name that occurs at most
  once has the bare name as its display label and the normalised bare name as its anchor.
\<close>

theorem collision_labels_by_base_name:
  "(1 < count_list (pooledNames files) n \<longrightarrow>
      getDisplayName n src (duplicateNames files) = n @ '' ('' @ src @ '')'' \<and>
      getAnchor n src (duplicateNames files) = toAnchor (n @ ''-'' @ src) \<and>
      (getDisplayName n src (duplicateNames files) = getDisplayName n src' (duplicateNames files)
         \<longleftrightarrow> src = src')) \<and>
   (count_list (pooledNames files) n \<le> 1 \<longrightarrow>
      getDisplayName n src (duplicateNames files) = n \<and>
      getAnchor n src (duplicateNames files) = toAnchor n)"
  by (simp add: duplicateNames_def findDuplicateNames_eq getDisplayName_def getAnchor_def)

theorem collision_labels_by_base_name_witness:
  "1 < count_list (pooledNames [fileExportingConfig ''src/a.ts'', fileExportingConfig ''src/b.ts''])
         ''Config'' \<and>
   getDisplayName ''Config'' ''a.ts''
     (duplicateNames [fileExportingConfig ''src/a.ts'', fileExportingConfig ''src/b.ts'']) =
     ''Config (a.ts)'' \<and>
   getAnchor ''Config'' ''a.ts''
     (duplicateNames [fileExportingConfig ''src/a.ts'', fileExportingConfig ''src/b.ts'']) =
     toAnchor ''Config-a.ts'' \<and>
   count_list (pooledNames [fileExportingConfig ''src/a.ts'']) ''Config'' \<le> 1 \<and>
   getDisplayName ''Config'' ''a.ts'' (duplicateNames [fileExportingConfig ''src/a.ts'']) =
     ''Config'' \<and>
   getAnchor ''Config'' ''a.ts'' (duplicateNames [fileExportingConfig ''src/a.ts'']) =
     toAnchor ''Config''"
proof -
  have two: "1 < count_list
      (pooledNames [fileExportingConfig ''src/a.ts'', fileExportingConfig ''src/b.ts''])
      ''Config''"
    by (simp add: resolve_simps)
  have one: "count_list (pooledNames [fileExportingConfig ''src/a.ts'']) ''Config'' \<le> 1"
    by (simp add: resolve_simps)
  show ?thesis
    using two one
      collision_labels_by_base_name
        [of "[fileExportingConfig ''src/a.ts'', fileExportingConfig ''src/b.ts'']"
            "''Config''" "''a.ts''" "''b.ts''"]
      collision_labels_by_base_name
        [of "[fileExportingConfig ''src/a.ts'']" "''Config''" "''a.ts''" "''b.ts''"]
    by simp
qed

text \<open>
  Claim C4, as stated, fails: two files with the same base name that both export \<open>Config\<close>
  give the two occurrences the same display label and the same anchor.
\<close>

theorem collision_same_base_name_counterexample:
  "1 < count_list
         (pooledNames [fileExportingConfig ''pkg/a/index.ts'',
                       fileExportingConfig ''pkg/b/index.ts'']) ''Config'' \<and>
   resolvedInterfaces [fileExportingConfig ''pkg/a/index.ts'',
                       fileExportingConfig ''pkg/b/index.ts''] =
     [(''Config (index.ts)'', ''config-index-ts''), (''Config (index.ts)'', ''config-index-ts'')]"
  by (simp add: resolve_simps)

subsection \<open>C5: anchors\<close>

text \<open>
  Claim C5. \<open>toAnchor\<close> lower-cases its input and replaces every maximal run of characters
  outside \<open>[a-z0-9]\<close> by one hyphen. Two files \<open>a.ts\<close> and \<open>b.ts\<close> that both export the
  interface \<open>Config\<close> give the display names \<open>Config (a.ts)\<close> and \<open>Config (b.ts)\<close> with
  the anchors \<open>config-a-ts\<close> and \<open>config-b-ts\<close>; one file that exports \<open>Config\<close> alone
  gives the display name \<open>Config\<close> and the anchor \<open>config\<close>.
\<close>

theorem toAnchor_normalises_runs:
  "toAnchor s = toAnchor_spec s \<and>
   resolvedInterfaces [fileExportingConfig ''a.ts'', fileExportingConfig ''b.ts''] =
     [(''Config (a.ts)'', ''config-a-ts''), (''Config (b.ts)'', ''config-b-ts'')] \<and>
   resolvedInterfaces [fileExportingConfig ''a.ts''] = [(''Config'', ''config'')]"
proof -
  have "toAnchor s = toAnchor_spec s"
    by (simp add: toAnchor_def toAnchor_spec_def replaceNonAlnumRuns_runs)
  moreover have
    "resolvedInterfaces [fileExportingConfig ''a.ts'', fileExportingConfig ''b.ts''] =
       [(''Config (a.ts)'', ''config-a-ts''), (''Config (b.ts)'', ''config-b-ts'')]"
    by (simp add: resolve_simps)
  moreover have "resolvedInterfaces [fileExportingConfig ''a.ts''] = [(''Config'', ''config'')]"
    by (simp add: resolve_simps)
  ultimately show ?thesis by simp
qed

theorem toAnchor_normalises_runs_witness:
  "toAnchor ''Get User--ID'' = ''get-user-id'' \<and> toAnchor_spec ''Get User--ID'' = ''get-user-id''"
proof -
  have "toAnchor ''Get User--ID'' = ''get-user-id''"
    by (simp add: resolve_simps)
  then show ?thesis
    using toAnchor_normalises_runs [of "''Get User--ID''"] by simp
qed

subsection \<open>C6: files that cannot be parsed, and the empty result\<close>

text \<open>
  Claim C6. A file that cannot be parsed does not stop the run: the warnings of a run are one
  for each matched file that could not be parsed, in order, and the document is generated
  from the contributions of the matched files, which leave such a file out. The run ends in
  an error exactly when no matched file contributes an interface, a type alias or a function.
\<close>

theorem run_fails_iff_nothing_contributed:
  "filter isWarning (fst (run glob parse globPattern options)) =
     warnings parse (glob globPattern (opt_exclude options)) \<and>
   (isl (snd (run glob parse globPattern options)) \<longleftrightarrow>
      (\<forall>file \<in> set (glob globPattern (opt_exclude options)). contribution (parse file) = [])) \<and>
   (\<not> isl (snd (run glob parse globPattern options)) \<longrightarrow>
      markdownOf (projr (snd (run glob parse globPattern options))) =
        generateMarkdown (mergedResult parse (glob globPattern (opt_exclude options)))
          \<lparr>title = Some (opt_title options)\<rparr>)"
  unfolding run_warnings run_outcome
  by (auto simp: Let_def mergedResult_empty split: option.splits)

theorem run_fails_iff_nothing_contributed_witness:
  "filter isWarning
     (fst (run (globReturning [''bad.ts'', ''a.ts'', ''empty.ts'']) exampleParse ''*.ts''
             exampleOptions)) =
     [FailedToParse ''bad.ts'' ''syntax error''] \<and>
   \<not> isl (snd (run (globReturning [''bad.ts'', ''a.ts'', ''empty.ts'']) exampleParse ''*.ts''
                 exampleOptions)) \<and>
   markdownOf (projr (snd (run (globReturning [''bad.ts'', ''a.ts'', ''empty.ts''])
                              exampleParse ''*.ts'' exampleOptions))) =
     generateMarkdown [fileExportingConfig ''a.ts''] \<lparr>title = Some ''API Reference''\<rparr> \<and>
   isl (snd (run (globReturning [''bad.ts'', ''empty.ts'']) exampleParse ''*.ts''
               exampleOptions))"
  using
    run_fails_iff_nothing_contributed
      [where glob = "globReturning [''bad.ts'', ''a.ts'', ''empty.ts'']"
         and parse = exampleParse and globPattern = "''*.ts''" and options = exampleOptions]
    run_fails_iff_nothing_contributed
      [where glob = "globReturning [''bad.ts'', ''empty.ts'']"
         and parse = exampleParse and globPattern = "''*.ts''" and options = exampleOptions]
  by (simp add: run_simps)

subsection \<open>C8: the description of a declaration\<close>

text \<open>
  Claim C8. The description of a declaration comes from the last of its documentation blocks
  only, and is that block's summary, trimmed; there is none when the declaration has no
  block, or when the last block has no summary or a summary that is empty once trimmed. Every
  kind of declaration resolves its description this way.
\<close>

theorem description_from_last_block:
  "getJsDocDescriptionFromDocs None = None \<and>
   getJsDocDescriptionFromDocs (Some []) = None \<and>
   getJsDocDescriptionFromDocs (Some (earlier @ [lastDoc])) =
     (case doc_description lastDoc of
        None \<Rightarrow> None
      | Some summary \<Rightarrow> if trim summary = [] then None else Some (trim summary)) \<and>
   iface_description (parseInterface iface) = getJsDocDescriptionFromDocs (Some (id_jsDocs iface)) \<and>
   alias_description (parseTypeAlias alias) = getJsDocDescriptionFromDocs (Some (ta_jsDocs alias)) \<and>
   fn_description (parseFunctionDeclaration fn) = getJsDocDescriptionFromDocs (Some (fd_jsDocs fn)) \<and>
   fn_description (parseArrowFunction (varDecl, varStatement) arrowFn) =
     getJsDocDescriptionFromDocs (Some (vs_jsDocs varStatement))"
  by (auto simp: getJsDocDescriptionFromDocs_def getJsDocDescription_def trim_def
      parseInterface_def parseTypeAlias_def parseFunctionDeclaration_def parseArrowFunction_def
      split: option.splits)

theorem description_from_last_block_witness:
  "getJsDocDescriptionFromDocs
     (Some ([\<lparr>doc_description = Some ''File banner'', doc_tags = []\<rparr>] @
            [\<lparr>doc_description = Some ''  Fetches a token. '', doc_tags = []\<rparr>])) =
   Some ''Fetches a token.''"
  using description_from_last_block
    [of "[\<lparr>doc_description = Some ''File banner'', doc_tags = []\<rparr>]"
        "\<lparr>doc_description = Some ''  Fetches a token. '', doc_tags = []\<rparr>"]
  by (simp add: trim_def isWhitespace_def)

subsection \<open>C9: the descriptions of the parameters\<close>

text \<open>
  Claim C9, as amended. The parameter descriptions come from the last documentation block.
  A tag records an entry exactly when it is a parameter tag named \<open>param\<close> whose parameter
  name is not empty and has no dot and whose comment text is not empty once trimmed; the
  description is the trimmed comment text without a leading dash and the white space that
  follows the dash; of several tags for one name the last one is kept.
\<close>

theorem param_descriptions_from_last_block:
  "extractParamDescriptions [] = Map.empty \<and>
   extractParamDescriptions (earlier @ [lastDoc]) =
     map_of (rev (List.map_filter recordedParam (doc_tags lastDoc))) \<and>
   dom (extractParamDescriptions (earlier @ [lastDoc])) =
     fst ` set (List.map_filter recordedParam (doc_tags lastDoc))"
  by (simp add: extractParamDescriptions_def extractParamDescriptions_loop_eq
      dom_map_of_conv_image_fst)

theorem param_descriptions_from_last_block_witness:
  "extractParamDescriptions
     ([docWithParam ''x'' ''- an earlier block''] @
      [\<lparr>doc_description = Some ''Adds.'',
        doc_tags = [JSDocParameterTag ''param'' ''x'' (Some '' - count ''),
                    JSDocParameterTag ''param'' ''input.authority'' (Some ''- nested''),
                    JSDocParameterTag ''param'' ''y'' None]\<rparr>]) =
   [''x'' \<mapsto> ''count'']"
  using param_descriptions_from_last_block
    [of "[docWithParam ''x'' ''- an earlier block'']"
        "\<lparr>doc_description = Some ''Adds.'',
          doc_tags = [JSDocParameterTag ''param'' ''x'' (Some '' - count ''),
                      JSDocParameterTag ''param'' ''input.authority'' (Some ''- nested''),
                      JSDocParameterTag ''param'' ''y'' None]\<rparr>"]
  by (simp add: List.map_filter_simps trim_def isWhitespace_def includesDot_def)

text \<open>
  Claim C9, as stated, fails: for the comment text \<open>-items\<close> the stored description is
  \<open>items\<close>, while stripping a leading dash and space leaves \<open>-items\<close>; for the comment
  text \<open>-\<close> the entry holds the empty string; and a comment text of two spaces, which is
  not empty, gives no entry.
\<close>

theorem param_description_dash_counterexample:
  "extractParamDescriptions [docWithParam ''count'' ''-items''] ''count'' = Some ''items'' \<and>
   stripDashSpace (trim ''-items'') = ''-items'' \<and>
   extractParamDescriptions [docWithParam ''count'' ''-''] ''count'' = Some [] \<and>
   extractParamDescriptions [docWithParam ''count'' ''  ''] ''count'' = None"
  by (simp add: extractParamDescriptions_def docWithParam_def stripDashSpace_def trim_def
      isWhitespace_def includesDot_def)

subsection \<open>C10: files without exported items\<close>

text \<open>
  Claim C10, as amended. A file that is parsed and has no exported interface, type alias or
  function is not in the list handed to the generator, and the outcome of the run is the same
  as if only the contributing files had been matched. When at least one file is matched, the
  error for an empty result is raised exactly when every matched file could not be parsed or
  has no exported item; when no file is matched the run has already failed with the error for
  no files found.
\<close>

theorem empty_files_are_dropped:
  "(glob globPattern (opt_exclude options) \<noteq> [] \<longrightarrow>
      (snd (run glob parse globPattern options) = Inl NoExportedTypesFound \<longleftrightarrow>
       (\<forall>file \<in> set (glob globPattern (opt_exclude options)). contribution (parse file) = []))) \<and>
   (glob globPattern (opt_exclude options) = [] \<longrightarrow>
      snd (run glob parse globPattern options) = Inl (NoFilesFound globPattern)) \<and>
   (\<forall>parsed \<in> set (mergedResult parse (glob globPattern (opt_exclude options))).
      interfaces parsed \<noteq> [] \<or> typeAliases parsed \<noteq> [] \<or> pf_functions parsed \<noteq> []) \<and>
   (contributing parse (glob globPattern (opt_exclude options)) \<noteq> [] \<longrightarrow>
      snd (run glob parse globPattern options) =
      snd (run (\<lambda>pattern exclude. contributing parse (glob pattern exclude)) parse
             globPattern options))"
proof -
  let ?files = "glob globPattern (opt_exclude options)"
  have a: "?files \<noteq> [] \<longrightarrow>
      (snd (run glob parse globPattern options) = Inl NoExportedTypesFound \<longleftrightarrow>
       (\<forall>file \<in> set ?files. contribution (parse file) = []))"
    unfolding run_outcome by (auto simp: Let_def mergedResult_empty split: option.splits)
  have a': "?files = [] \<longrightarrow>
      snd (run glob parse globPattern options) = Inl (NoFilesFound globPattern)"
    unfolding run_outcome by (simp add: Let_def)
  have b: "\<forall>parsed \<in> set (mergedResult parse ?files).
      interfaces parsed \<noteq> [] \<or> typeAliases parsed \<noteq> [] \<or> pf_functions parsed \<noteq> []"
    using mergedResult_nonempty_files by blast
  have c: "contributing parse ?files \<noteq> [] \<longrightarrow>
      snd (run glob parse globPattern options) =
      snd (run (\<lambda>pattern exclude. contributing parse (glob pattern exclude)) parse
             globPattern options)"
  proof
    assume ne: "contributing parse ?files \<noteq> []"
    then have "?files \<noteq> []" by (auto simp: contributing_def)
    with ne show "snd (run glob parse globPattern options) =
      snd (run (\<lambda>pattern exclude. contributing parse (glob pattern exclude)) parse
             globPattern options)"
      unfolding run_outcome by (simp add: Let_def contributing_def mergedResult_filter)
  qed
  from a a' b c show ?thesis by blast
qed

theorem empty_files_are_dropped_witness:
  "snd (run (globReturning [''empty.ts'', ''other.ts'']) exampleParse ''*.ts'' exampleOptions) =
     Inl NoExportedTypesFound \<and>
   snd (run (globReturning []) exampleParse ''*.ts'' exampleOptions) =
     Inl (NoFilesFound ''*.ts'') \<and>
   mergedResult exampleParse [''empty.ts'', ''a.ts''] = [fileExportingConfig ''a.ts''] \<and>
   contributing exampleParse [''empty.ts'', ''a.ts''] = [''a.ts''] \<and>
   snd (run (globReturning [''empty.ts'', ''a.ts'']) exampleParse ''*.ts'' exampleOptions) =
   snd (run (globReturning [''a.ts'']) exampleParse ''*.ts'' exampleOptions)"
proof -
  have same: "(\<lambda>pattern exclude.
                 contributing exampleParse (globReturning [''empty.ts'', ''a.ts''] pattern exclude)) =
              globReturning [''a.ts'']"
    by (simp add: run_simps fun_eq_iff)
  show ?thesis
    using
      empty_files_are_dropped
        [where glob = "globReturning [''empty.ts'', ''other.ts'']"
           and parse = exampleParse and globPattern = "''*.ts''" and options = exampleOptions]
      empty_files_are_dropped
        [where glob = "globReturning []"
           and parse = exampleParse and globPattern = "''*.ts''" and options = exampleOptions]
      empty_files_are_dropped
        [where glob = "globReturning [''empty.ts'', ''a.ts'']"
           and parse = exampleParse and globPattern = "''*.ts''" and options = exampleOptions]
    unfolding same
    by (simp add: run_simps)
qed

text \<open>
  Claim C10, as stated, fails when no file is matched: then every matched file failed or was
  empty, and the error is the one for no files found, not the one for an empty result.
\<close>

theorem no_files_matched_counterexample:
  "globReturning [] ''*.ts'' (opt_exclude exampleOptions) = [] \<and>
   snd (run (globReturning []) exampleParse ''*.ts'' exampleOptions) =
     Inl (NoFilesFound ''*.ts'') \<and>
   snd (run (globReturning []) exampleParse ''*.ts'' exampleOptions) \<noteq>
     Inl NoExportedTypesFound"
  by (simp add: run_def globReturning_def)

end
